theory Spec2Isabelle
  imports Main "HOL-Library.Sublist" "HOL-Library.AList"
begin

section \<open>Configuration constants of \<open>redist.py\<close>\<close>

definition EXE_NAME :: string where
  "EXE_NAME = ''buf''"

definition PRJ_NAME :: string where
  "PRJ_NAME = EXE_NAME @ ''-exe''"

section \<open>String helpers of the Python standard library\<close>

text \<open>\<open>str.startswith\<close>.\<close>

definition startswith :: "string \<Rightarrow> string \<Rightarrow> bool" where
  "startswith s p = (take (length p) s = p)"

text \<open>\<open>str.endswith\<close>.\<close>

definition endswith :: "string \<Rightarrow> string \<Rightarrow> bool" where
  "endswith s x = (length x \<le> length s \<and> drop (length s - length x) s = x)"

text \<open>\<open>str.removeprefix\<close>: the string without the prefix when it starts with it, the string
  itself otherwise.\<close>

definition removeprefix :: "string \<Rightarrow> string \<Rightarrow> string" where
  "removeprefix s p = (if startswith s p then drop (length p) s else s)"

text \<open>\<open>str.removesuffix\<close>: the string without the suffix when the suffix is not empty and the
  string ends with it, the string itself otherwise.\<close>

definition removesuffix :: "string \<Rightarrow> string \<Rightarrow> string" where
  "removesuffix s x =
     (if x \<noteq> [] \<and> endswith s x then take (length s - length x) s else s)"

section \<open>Platform mapper\<close>

text \<open>The dictionary literal of \<open>map_platform\<close>, in source order.\<close>

definition PLATFORM_TABLE :: "(string \<times> string) list" where
  "PLATFORM_TABLE =
     [(''Linux-aarch64'', ''manylinux_2_17_aarch64.manylinux2014_aarch64''),
      (''Linux-x86_64'', ''manylinux_2_5_x86_64.manylinux1_x86_64''),
      (''Darwin-arm64'', ''macosx_11_0_arm64''),
      (''Darwin-x86_64'', ''macosx_10_4_x86_64''),
      (''Windows-arm64'', ''win_arm64''),
      (''Windows-x86_64'', ''win_amd64'')]"

text \<open>\<open>map_platform\<close>: \<open>dict.get\<close> of the name without the \<open>buf-\<close> prefix and the
  \<open>.exe\<close> suffix; \<open>None\<close> is Python's \<open>None\<close>.\<close>

definition map_platform :: "string \<Rightarrow> string option" where
  "map_platform s =
     map_of PLATFORM_TABLE (removesuffix (removeprefix s (EXE_NAME @ ''-'')) ''.exe'')"

section \<open>Releases and assets\<close>

text \<open>The frozen dataclasses \<open>Asset\<close> and \<open>Release\<close>. The Python field names \<open>id\<close>, \<open>url\<close>,
  \<open>name\<close> and \<open>size\<close> carry the class name as a prefix here.\<close>

record Asset =
  Asset_id :: int
  Asset_url :: string
  Asset_name :: string
  Asset_content_type :: string
  Asset_size :: int

record Release =
  Release_id :: int
  Release_url :: string
  Release_tag_name :: string
  Release_draft :: bool
  Release_prerelease :: bool
  Release_assets :: "Asset list"




text \<open>Python's \<open>hash\<close> of an integer, on a 64-bit build: the absolute value modulo the prime
  \<open>2^61 - 1\<close>, with the sign of the integer, and \<open>-2\<close> in the place of \<open>-1\<close>.\<close>

definition hash_int :: "int \<Rightarrow> int" where
  "hash_int n =
     (if sgn n * (\<bar>n\<bar> mod (2 ^ 61 - 1)) = - 1 then - 2 else sgn n * (\<bar>n\<bar> mod (2 ^ 61 - 1)))"

text \<open>Python's \<open>hash\<close> of a tuple (from version 3.8 on, on a 64-bit build), from the hashes of
  its items. The accumulator is an unsigned 64-bit number, kept as an integer modulo
  \<open>2^64\<close>: each item is multiplied in, the accumulator is rotated left by 31 bits and
  multiplied by a prime; the length is added at the end, and the result is read as a signed
  number.\<close>

definition rotate31 :: "int \<Rightarrow> int" where
  "rotate31 x = (x * 2 ^ 31) mod 2 ^ 64 + x div 2 ^ 33"

definition hash_tuple_item :: "int \<Rightarrow> int \<Rightarrow> int" where
  "hash_tuple_item lane acc =
     (rotate31 ((acc + (lane mod 2 ^ 64) * 14029467366897019727) mod 2 ^ 64) *
      11400714785074694791) mod 2 ^ 64"

definition hash_tuple_end :: "nat \<Rightarrow> int \<Rightarrow> int" where
  "hash_tuple_end len acc =
     (if (acc + xor (int len) (xor 2870177450012600261 3527539)) mod 2 ^ 64 = 2 ^ 64 - 1
      then 1546275796
      else if 2 ^ 63 \<le> (acc + xor (int len) (xor 2870177450012600261 3527539)) mod 2 ^ 64
      then (acc + xor (int len) (xor 2870177450012600261 3527539)) mod 2 ^ 64 - 2 ^ 64
      else (acc + xor (int len) (xor 2870177450012600261 3527539)) mod 2 ^ 64)"

definition hash_tuple :: "int list \<Rightarrow> int" where
  "hash_tuple lanes =
     hash_tuple_end (length lanes) (fold hash_tuple_item lanes 2870177450012600261)"

text \<open>The generated \<open>__hash__\<close> is \<open>hash\<close> of the tuple of the fields that take part in the
  hash: the identifier alone, every other field being declared with \<open>hash=False\<close>.\<close>

definition Asset_hash :: "Asset \<Rightarrow> int" where
  "Asset_hash a = hash_tuple [hash_int (Asset_id a)]"




section \<open>Errors\<close>

datatype error =
    SystemExit int
  | HTTPError
  | FileExistsError
  | FileNotFoundError
  | NotADirectoryError
  | IsADirectoryError
  | SameFileError
  | InvalidVersion
  | KeyError
  | CalledProcessError
  | JSONDecodeError
  | ValueError
  | AttributeError

section \<open>Release fetcher\<close>

text \<open>What \<open>fetch_releases\<close> reads of a response: the status code, the releases that
  \<open>Release.schema().load\<close> decodes from the body, and the URL of the \<open>next\<close> link relation
  when there is one. \<open>SESSION.get\<close> is the function \<open>get\<close> from URLs to responses; failures
  inside the HTTP client and the decoder are outside the model.\<close>

record Response =
  status_code :: nat
  releases :: "Release list"
  links_next :: "string option"




definition ORIGIN :: string where
  "ORIGIN = ''fleshgrinder/python-'' @ PRJ_NAME"

definition UPSTREAM :: string where
  "UPSTREAM = ''bufbuild/buf''"





section \<open>The file system and the network log\<close>

text \<open>Files live below \<open>ROOT_DIR\<close>, the directory of the script. A path is the list of its
  components below \<open>ROOT_DIR\<close>; the file system is the list of its entries, in the order in
  which a directory listing returns them. Components are taken literally: the model has no
  symbolic links and gives \<open>..\<close> no meaning.\<close>

type_synonym bytes = string

type_synonym path = "string list"

datatype node = Dir | File bytes

type_synonym fs = "(path \<times> node) list"

text \<open>The state the commands act on: the files, and the URLs requested so far.\<close>

record world =
  files :: fs
  requests :: "string list"

definition lookup :: "fs \<Rightarrow> path \<Rightarrow> node option" where
  "lookup fs p = (if p = [] then Some Dir else map_of fs p)"

text \<open>\<open>Path.exists\<close>, \<open>Path.is_dir\<close>, \<open>Path.is_file\<close>.\<close>

definition exists_path :: "fs \<Rightarrow> path \<Rightarrow> bool" where
  "exists_path fs p = (lookup fs p \<noteq> None)"

definition is_dir :: "fs \<Rightarrow> path \<Rightarrow> bool" where
  "is_dir fs p = (lookup fs p = Some Dir)"

definition is_file :: "fs \<Rightarrow> path \<Rightarrow> bool" where
  "is_file fs p = (case lookup fs p of Some (File _) \<Rightarrow> True | _ \<Rightarrow> False)"

text \<open>\<open>Asset.download\<close>: the body is \<open>pass\<close>; the method returns \<open>None\<close>.\<close>

definition Asset_download :: "Asset \<Rightarrow> world \<Rightarrow> unit \<times> world" where
  "Asset_download self w = ((), w)"

section \<open>Time: \<open>gmtime\<close> and \<open>strftime\<close>\<close>

text \<open>The fields of \<open>time.struct_time\<close> that the format \<open>%Y%m%d%H%M%S\<close> reads.\<close>

record struct_time =
  tm_year :: int
  tm_mon :: nat
  tm_mday :: nat
  tm_hour :: nat
  tm_min :: nat
  tm_sec :: nat

definition is_leap :: "int \<Rightarrow> bool" where
  "is_leap y = (y mod 4 = 0 \<and> (y mod 100 \<noteq> 0 \<or> y mod 400 = 0))"

definition days_in_year :: "int \<Rightarrow> int" where
  "days_in_year y = (if is_leap y then 366 else 365)"

definition month_lengths :: "int \<Rightarrow> nat list" where
  "month_lengths y = [31, if is_leap y then 29 else 28, 31, 30, 31, 30, 31, 31, 30, 31, 30, 31]"

text \<open>The year that holds the day \<open>days\<close> days after 1 January of year \<open>y\<close> (before it, when
  \<open>days\<close> is negative), and the day within that year, counted from 0.\<close>

function year_of_days :: "int \<Rightarrow> int \<Rightarrow> int \<times> int" where
  "year_of_days y days =
     (if days < 0 then year_of_days (y - 1) (days + days_in_year (y - 1))
      else if days_in_year y \<le> days then year_of_days (y + 1) (days - days_in_year y)
      else (y, days))"
  by pat_completeness auto
termination
  by (relation "measure (\<lambda>(y, days). nat (if days < 0 then 366 - days else days))")
     (auto simp: days_in_year_def split: if_splits)

declare year_of_days.simps [simp del]

text \<open>The month that holds the day \<open>days\<close> days after the first day of month \<open>m\<close>, and the day
  within that month, counted from 0; the list holds the lengths of the months from \<open>m\<close> on.\<close>

fun month_of_days :: "nat \<Rightarrow> nat \<Rightarrow> nat list \<Rightarrow> nat \<times> nat" where
  "month_of_days m days [] = (m, days)"
| "month_of_days m days (l # ls) =
     (if l \<le> days then month_of_days (m + 1) (days - l) ls else (m, days))"

text \<open>\<open>time.gmtime\<close> of a number of seconds since 1970-01-01T00:00:00 UTC, negative for the
  times before, in the proleptic Gregorian calendar and without leap seconds. (The C
  library refuses numbers of seconds beyond its range, far outside the years with four
  digits.)\<close>

definition gmtime :: "int \<Rightarrow> struct_time" where
  "gmtime t =
     (case year_of_days 1970 (t div 86400) of
        (y, yday) \<Rightarrow>
          (case month_of_days 1 (nat yday) (month_lengths y) of
             (m, mday) \<Rightarrow>
               \<lparr>tm_year = y, tm_mon = m, tm_mday = mday + 1,
                tm_hour = nat (t mod 86400 div 3600),
                tm_min = nat (t mod 3600 div 60),
                tm_sec = nat (t mod 60)\<rparr>))"

text \<open>Decimal digits of a natural number, the same padded with zeros to two digits, and the
  decimal digits of an integer.\<close>

definition digit :: "nat \<Rightarrow> char" where
  "digit n = ''0123456789'' ! n"

fun str_nat :: "nat \<Rightarrow> string" where
  "str_nat n = (if n < 10 then [digit n] else str_nat (n div 10) @ [digit (n mod 10)])"

declare str_nat.simps [simp del]

definition zfill2 :: "nat \<Rightarrow> string" where
  "zfill2 n = (if n < 10 then CHR ''0'' # str_nat n else str_nat n)"

definition str_int :: "int \<Rightarrow> string" where
  "str_int i = (if i < 0 then CHR ''-'' # str_nat (nat (- i)) else str_nat (nat i))"

text \<open>\<open>strftime("%Y%m%d%H%M%S", t)\<close>, with the year as the C library of Linux prints it: in
  decimal, without padding.\<close>

definition strftime_YmdHMS :: "struct_time \<Rightarrow> string" where
  "strftime_YmdHMS t =
     str_int (tm_year t) @ zfill2 (tm_mon t) @ zfill2 (tm_mday t) @
     zfill2 (tm_hour t) @ zfill2 (tm_min t) @ zfill2 (tm_sec t)"

text \<open>The number of days from 1 January 1970 to 1 January of year \<open>y\<close>, in closed form; it
  is used to find and to bound the year that \<open>year_of_days\<close> returns.\<close>

definition days_before :: "int \<Rightarrow> int" where
  "days_before y =
     365 * (y - 1970) + ((y - 1) div 4 - (y - 1) div 100 + (y - 1) div 400 - 477)"

section \<open>The environment of a run\<close>

text \<open>What a run reads from its host: whether \<open>sys.platform\<close> is \<open>win32\<close>, the clock
  (\<open>time.time()\<close>, in seconds), the variable \<open>SOURCE_DATE_EPOCH\<close>, the two token variables, and
  the committer date that \<open>git log -1 --format=%ct\<close> prints (\<open>None\<close> when \<open>run\<close> or the
  conversion with \<open>int\<close> raises).\<close>

record env =
  win32 :: bool
  clock :: int
  SOURCE_DATE_EPOCH :: "int option"
  GITHUB_TOKEN :: "string option"
  GH_TOKEN :: "string option"
  git_commit_time :: "int option"

section \<open>Version derivation\<close>

text \<open>The first statement of \<open>assemble\<close> after \<open>maybe_clean\<close>: the version suffix.\<close>

definition version_suffix :: "env \<Rightarrow> bool \<Rightarrow> error + string" where
  "version_suffix e dev =
     (if dev then
        (case git_commit_time e of
           None \<Rightarrow> Inl CalledProcessError
         | Some ct \<Rightarrow> Inr (''.dev'' @ strftime_YmdHMS (gmtime ct)))
      else Inr [])"

text \<open>\<open>str(Version(s))\<close> of the \<open>packaging\<close> library: the normal form of a version string, or
  \<open>InvalidVersion\<close>. The library is not part of the repository; its normalisation is the
  parameter \<open>canonical\<close>.\<close>

definition Version_str :: "(string \<Rightarrow> string option) \<Rightarrow> string \<Rightarrow> error + string" where
  "Version_str canonical s = (case canonical s of None \<Rightarrow> Inl InvalidVersion | Some v \<Rightarrow> Inr v)"

text \<open>\<open>version = str(Version(f"{tag.removeprefix('v')}{version_suffix}"))\<close>.\<close>

definition tag_version ::
  "(string \<Rightarrow> string option) \<Rightarrow> string \<Rightarrow> string \<Rightarrow> error + string" where
  "tag_version canonical tag sfx = Version_str canonical (removeprefix tag ''v'' @ sfx)"

section \<open>File system operations\<close>

definition ROOT_DIR :: path where
  "ROOT_DIR = []"

definition CACHE_DIR :: path where
  "CACHE_DIR = ROOT_DIR @ [''.cache'']"

definition BUILD_DIR :: path where
  "BUILD_DIR = ROOT_DIR @ [''build'']"

definition DIST_DIR :: path where
  "DIST_DIR = ROOT_DIR @ [''dist'']"

definition EXE_CACHE_DIR :: path where
  "EXE_CACHE_DIR = CACHE_DIR @ [EXE_NAME]"

definition EXE_BUILD_DIR :: path where
  "EXE_BUILD_DIR = BUILD_DIR @ [EXE_NAME]"

text \<open>A command that raises stops with the exception; otherwise the next step runs on its
  result.\<close>

definition andthen :: "error + 'a \<Rightarrow> ('a \<Rightarrow> error + 'b) \<Rightarrow> error + 'b" where
  "andthen m f = (case m of Inl e \<Rightarrow> Inl e | Inr x \<Rightarrow> f x)"

text \<open>The directories strictly above a path, below \<open>ROOT_DIR\<close>, outermost first.\<close>

definition parents :: "path \<Rightarrow> path list" where
  "parents p = butlast (tl (prefixes p))"

text \<open>\<open>Path.mkdir(parents, exist_ok)\<close>: an existing path is accepted only when \<open>exist_ok\<close>
  holds and it is a directory; a file on the way is an error; a missing parent is an error
  unless \<open>parents\<close> holds, in which case the missing directories are created, outermost
  first.\<close>

definition mkdir :: "bool \<Rightarrow> bool \<Rightarrow> path \<Rightarrow> fs \<Rightarrow> error + fs" where
  "mkdir with_parents exist_ok p fs =
     (if exists_path fs p then
        (if exist_ok \<and> is_dir fs p then Inr fs else Inl FileExistsError)
      else if list_ex (is_file fs) (parents p) then Inl NotADirectoryError
      else if \<not> with_parents \<and> \<not> is_dir fs (butlast p) then Inl FileNotFoundError
      else Inr (fs @ map (\<lambda>q. (q, Dir)) (filter (\<lambda>q. \<not> exists_path fs q) (tl (prefixes p)))))"

text \<open>Opening a path for writing and writing \<open>data\<close> to it: the file is created or
  replaced; its directory has to exist.\<close>

definition write_bytes :: "path \<Rightarrow> bytes \<Rightarrow> fs \<Rightarrow> error + fs" where
  "write_bytes p data fs =
     (if is_dir fs p then Inl IsADirectoryError
      else if list_ex (is_file fs) (parents p) then Inl NotADirectoryError
      else if \<not> is_dir fs (butlast p) then Inl FileNotFoundError
      else Inr (AList.update p (File data) fs))"

text \<open>\<open>Path.read_bytes\<close>.\<close>

definition read_bytes :: "path \<Rightarrow> fs \<Rightarrow> error + bytes" where
  "read_bytes p fs =
     (case lookup fs p of
        Some (File data) \<Rightarrow> Inr data
      | Some Dir \<Rightarrow> Inl IsADirectoryError
      | None \<Rightarrow>
          if list_ex (is_file fs) (parents p) then Inl NotADirectoryError
          else Inl FileNotFoundError)"

text \<open>\<open>shutil.copyfile(src, dst)\<close>.\<close>

definition copyfile :: "path \<Rightarrow> path \<Rightarrow> fs \<Rightarrow> error + fs" where
  "copyfile src dst fs =
     (if src = dst \<and> exists_path fs src then Inl SameFileError
      else andthen (read_bytes src fs) (\<lambda>data. write_bytes dst data fs))"

text \<open>\<open>shutil.rmtree\<close>: the directory goes with everything below it.\<close>

definition rmtree :: "path \<Rightarrow> fs \<Rightarrow> error + fs" where
  "rmtree d fs =
     (if is_dir fs d then Inr (filter (\<lambda>(q, n). \<not> prefix d q) fs)
      else if exists_path fs d then Inl NotADirectoryError
      else Inl FileNotFoundError)"

text \<open>\<open>maybe_clean\<close>.\<close>

definition maybe_clean :: "bool \<Rightarrow> path \<Rightarrow> fs \<Rightarrow> error + fs" where
  "maybe_clean clean directory fs =
     (if clean \<and> exists_path fs directory
      then andthen (rmtree directory fs) (mkdir True True directory)
      else mkdir True True directory fs)"

text \<open>\<open>Path.glob\<close> with a pattern that consists of the literal text \<open>pre\<close>, one \<open>*\<close> and the
  literal text \<open>post\<close>, on a host where names are matched with their case (the patterns that
  the code itself writes are of this form): the entries of the directory whose names start
  with \<open>pre\<close> and end with \<open>post\<close> after it, in the order of the directory listing. The
  listing is read when the iteration starts.\<close>

definition glob_star :: "fs \<Rightarrow> path \<Rightarrow> string \<Rightarrow> string \<Rightarrow> path list" where
  "glob_star fs d pre post =
     (if is_dir fs d
      then filter (\<lambda>q. q \<noteq> [] \<and> butlast q = d \<and>
                     length pre + length post \<le> length (last q) \<and>
                     startswith (last q) pre \<and> endswith (last q) post) (map fst fs)
      else [])"

section \<open>Paths built from strings\<close>

text \<open>\<open>str.split(c)\<close>, and the components that \<open>pathlib\<close> reads in a string: the pieces
  between slashes, without the empty ones and the single dots. \<open>joinpath\<close> is the operator
  \<open>/\<close> of \<open>Path\<close> for a relative right operand, \<open>path_name\<close> is \<open>Path.name\<close>.\<close>

fun split_on :: "char \<Rightarrow> string \<Rightarrow> string list" where
  "split_on c [] = [[]]"
| "split_on c (x # xs) =
     (if x = c then [] # split_on c xs
      else (case split_on c xs of [] \<Rightarrow> [[x]] | w # ws \<Rightarrow> (x # w) # ws))"

definition parts :: "string \<Rightarrow> string list" where
  "parts s = filter (\<lambda>w. w \<noteq> [] \<and> w \<noteq> ''.'') (split_on CHR ''/'' s)"

definition joinpath :: "path \<Rightarrow> string \<Rightarrow> path" where
  "joinpath p s = p @ parts s"

definition path_name :: "path \<Rightarrow> string" where
  "path_name p = (if p = [] then [] else last p)"

section \<open>Metadata\<close>

text \<open>A header value is a string or a list of strings; a metadata dictionary keeps its
  keys in insertion order, and an assignment to a key keeps the place of the key.\<close>

datatype header_value = Str string | Lst "string list"

type_synonym metadata = "(string \<times> header_value) list"

definition ORIGIN_URL :: string where
  "ORIGIN_URL = ''https://github.com/'' @ ORIGIN"

definition UPSTREAM_URL :: string where
  "UPSTREAM_URL = ''https://github.com/'' @ UPSTREAM"

definition PYPI_METADATA :: metadata where
  "PYPI_METADATA =
     [(''Metadata-Version'', Str ''2.1''),
      (''Name'', Str PRJ_NAME),
      (''Summary'', Str ''PyPI packaged Buf CLI''),
      (''Description-Content-Type'', Str ''text/markdown''),
      (''Author'', Str ''Buf Technologies''),
      (''Maintainer'', Str ''Fleshgrinder''),
      (''Maintainer-email'', Str ''pypi@fleshgrinder.com''),
      (''Home-page'', Str ORIGIN_URL),
      (''License-File'', Str ''LICENSE''),
      (''License'', Str ''Apache-2.0''),
      (''Classifier'',
         Lst [''Topic :: Software Development :: Code Generators'',
              ''Topic :: Software Development :: Quality Assurance'',
              ''Topic :: Text Processing :: Markup'',
              ''Topic :: Utilities'',
              ''License :: OSI Approved :: Apache Software License'']),
      (''Project-URL'',
         Lst [''Official Website, https://buf.build/'',
              ''Source Code, '' @ UPSTREAM_URL,
              ''Issue Tracker, '' @ UPSTREAM_URL @ ''/issues''])]"

text \<open>\<open>PRJ_NAME.replace("-", "_")\<close>.\<close>

definition WHL_NAME :: string where
  "WHL_NAME = map (\<lambda>c. if c = CHR ''-'' then CHR ''_'' else c) PRJ_NAME"

definition WHL_METADATA :: metadata where
  "WHL_METADATA =
     [(''Wheel-Version'', Str ''1.0''),
      (''Generator'', Str ORIGIN_URL),
      (''Root-Is-Purelib'', Str ''false'')]"

section \<open>Archive entries\<close>

text \<open>The fields of \<open>zipfile.ZipInfo\<close> that the code sets or that depend on the host.\<close>

record ZipInfo =
  filename :: string
  date_time :: "int \<times> nat \<times> nat \<times> nat \<times> nat \<times> nat"
  compress_type :: nat
  create_system :: nat
  external_attr :: nat
  file_size :: nat

definition ZIP_STORED :: nat where
  "ZIP_STORED = 0"

definition ZIP_DEFLATED :: nat where
  "ZIP_DEFLATED = 8"

text \<open>\<open>ZipInfo(filename)\<close>: the default date is 1 January 1980, the entry is stored
  uncompressed, and \<open>create_system\<close> is 0 on Windows and 3 elsewhere.\<close>

definition ZipInfo_init :: "env \<Rightarrow> string \<Rightarrow> ZipInfo" where
  "ZipInfo_init e k =
     \<lparr>filename = k, date_time = (1980, 1, 1, 0, 0, 0), compress_type = ZIP_STORED,
      create_system = (if win32 e then 0 else 3), external_attr = 0, file_size = 0\<rparr>"

text \<open>The first argument of \<open>writestr\<close>: a \<open>ZipInfo\<close>, or the name of the entry as a \<open>str\<close>.\<close>

datatype zinfo_or_arcname = Info ZipInfo | Arcname string

text \<open>\<open>WheelFile.writestr\<close> with a \<open>ZipInfo\<close>: the entry is added to the archive with the size
  of its data.\<close>

definition WheelFile_writestr ::
  "ZipInfo \<Rightarrow> bytes \<Rightarrow> (ZipInfo \<times> bytes) list \<Rightarrow> (ZipInfo \<times> bytes) list" where
  "WheelFile_writestr zi data archive = archive @ [(zi\<lparr>file_size := length data\<rparr>, data)]"

text \<open>\<open>ReproducibleWheelFile.writestr\<close>: the two fields are assigned on the first argument,
  which raises \<open>AttributeError\<close> when the argument is a \<open>str\<close>, and the call goes on to the
  method of \<open>WheelFile\<close>.\<close>

definition ReproducibleWheelFile_writestr ::
  "zinfo_or_arcname \<Rightarrow> bytes \<Rightarrow> (ZipInfo \<times> bytes) list \<Rightarrow> error + (ZipInfo \<times> bytes) list" where
  "ReproducibleWheelFile_writestr arg data archive =
     (case arg of
        Arcname k \<Rightarrow> Inl AttributeError
      | Info zi \<Rightarrow>
          Inr (WheelFile_writestr
                 (zi\<lparr>create_system := 3, date_time := (1980, 1, 1, 0, 0, 0)\<rparr>) data archive))"

text \<open>The libraries that the commands call and that are not part of the repository, as
  parameters:
  \<^item> \<open>Path.glob\<close> of \<open>pathlib\<close> for the patterns that the user gives: the paths it yields for a
    directory and a pattern in a file system, as it is when the iteration starts, or the
    exception it raises;
  \<^item> the normal form of a version string in \<open>packaging\<close> (\<open>None\<close> for \<open>InvalidVersion\<close>);
  \<^item> the bytes of an \<open>EmailMessage\<close> with given headers and payload;
  \<^item> of \<open>WheelFile.close\<close> in \<open>wheel\<close>: the data of the entry \<open>RECORD\<close> that it writes for the
    entries written so far, and what it hands to \<open>writestr\<close> with it: a \<open>ZipInfo\<close> that it
    makes on the host (in the versions of the library that date it by the clock or by
    \<open>SOURCE_DATE_EPOCH\<close>), or the name of the entry as a \<open>str\<close> (\<open>None\<close>; the versions from
    0.40 on);
  \<^item> the bytes of the file that the closed archive leaves, as a function of its entries.
  The checks that \<open>WheelFile\<close> makes on the file name are outside the model.\<close>

record lib =
  Path_glob :: "fs \<Rightarrow> path \<Rightarrow> string \<Rightarrow> error + path list"
  Version_canonical :: "string \<Rightarrow> string option"
  EmailMessage_bytes :: "(string \<times> string) list \<Rightarrow> string option \<Rightarrow> bytes"
  RECORD_data :: "(ZipInfo \<times> bytes) list \<Rightarrow> bytes"
  RECORD_zinfo :: "env \<Rightarrow> ZipInfo option"
  ZipFile_bytes :: "(ZipInfo \<times> bytes) list \<Rightarrow> bytes"

text \<open>\<open>directory.glob(pattern)\<close> for a pattern that the user gives: \<open>pathlib\<close> raises
  \<open>ValueError\<close> for the empty pattern when the iteration starts; what it does with any other
  pattern is the library's.\<close>

definition glob_pattern :: "lib \<Rightarrow> fs \<Rightarrow> path \<Rightarrow> string \<Rightarrow> error + path list" where
  "glob_pattern l fs d pat = (if pat = [] then Inl ValueError else Path_glob l fs d pat)"

text \<open>\<open>WheelFile.close\<close>, as far as the override is concerned: when entries were written, the
  entry \<open>RECORD\<close> is written with \<open>self.writestr\<close>, which is the method of
  \<open>ReproducibleWheelFile\<close>.\<close>

definition WheelFile_close ::
  "env \<Rightarrow> lib \<Rightarrow> string \<Rightarrow> (ZipInfo \<times> bytes) list \<Rightarrow> error + (ZipInfo \<times> bytes) list" where
  "WheelFile_close e l record_path it =
     (if it = [] then Inr it
      else
        ReproducibleWheelFile_writestr
          (case RECORD_zinfo l e of
             None \<Rightarrow> Arcname record_path
           | Some zi \<Rightarrow> Info (zi\<lparr>filename := record_path\<rparr>))
          (RECORD_data l it) it)"

section \<open>Verifier\<close>






section \<open>Archive assembler\<close>

text \<open>\<open>emsg\<close>: every element of a list value becomes a header of its own, in order; the
  payload is set when it is neither \<open>None\<close> nor empty.\<close>

fun emsg_headers :: "metadata \<Rightarrow> (string \<times> string) list" where
  "emsg_headers [] = []"
| "emsg_headers ((hk, Lst es) # rest) = map (\<lambda>e. (hk, e)) es @ emsg_headers rest"
| "emsg_headers ((hk, Str hv) # rest) = (hk, hv) # emsg_headers rest"

definition emsg :: "lib \<Rightarrow> metadata \<Rightarrow> string option \<Rightarrow> bytes" where
  "emsg l headers payload =
     EmailMessage_bytes l (emsg_headers headers)
       (case payload of None \<Rightarrow> None | Some p \<Rightarrow> if p = [] then None else Some p)"

text \<open>The tuple of four entries that \<open>assemble\<close> iterates over for one archive: name, data
  and permission bits (0o755 is 493, 0o644 is 420).\<close>

definition wheel_items ::
  "lib \<Rightarrow> string \<Rightarrow> string \<Rightarrow> bytes \<Rightarrow> bytes \<Rightarrow> metadata \<Rightarrow> string \<Rightarrow> metadata \<Rightarrow>
   (string \<times> bytes \<times> nat) list" where
  "wheel_items l whl_name exe_name exe license pypi_metadata description whl_metadata =
     [(whl_name @ ''.data/scripts/'' @ exe_name, exe, 493),
      (whl_name @ ''.dist-info'' @ ''/LICENSE'', license, 420),
      (whl_name @ ''.dist-info'' @ ''/METADATA'', emsg l pypi_metadata (Some description), 420),
      (whl_name @ ''.dist-info'' @ ''/WHEEL'', emsg l whl_metadata None, 420)]"

text \<open>The body of the loop over the four entries; 0o100000 is 32768.\<close>

definition write_item ::
  "env \<Rightarrow> string \<times> bytes \<times> nat \<Rightarrow> (ZipInfo \<times> bytes) list \<Rightarrow>
   error + (ZipInfo \<times> bytes) list" where
  "write_item e item it =
     (case item of
        (k0, v, p) \<Rightarrow>
          ReproducibleWheelFile_writestr
            (Info ((ZipInfo_init e k0)
               \<lparr>compress_type := ZIP_DEFLATED,
                external_attr := push_bit 16 (p + 32768),
                file_size := length v\<rparr>))
            v it)"

text \<open>The loop over the entries.\<close>

fun write_items ::
  "env \<Rightarrow> (string \<times> bytes \<times> nat) list \<Rightarrow> (ZipInfo \<times> bytes) list \<Rightarrow>
   error + (ZipInfo \<times> bytes) list" where
  "write_items e [] it = Inr it"
| "write_items e (item # rest) it = andthen (write_item e item it) (write_items e rest)"

text \<open>The entries of one archive: the \<open>with\<close> statement opens the empty archive, its body
  writes the four entries, and leaving it closes the archive. The name of the entry
  \<open>RECORD\<close> is taken from the name of the archive file by the library: the \<open>dist-info\<close>
  directory of \<open>whl_name\<close>.\<close>

definition wheel_archive ::
  "env \<Rightarrow> lib \<Rightarrow> string \<Rightarrow> string \<Rightarrow> bytes \<Rightarrow> bytes \<Rightarrow> metadata \<Rightarrow> string \<Rightarrow> metadata \<Rightarrow>
   error + (ZipInfo \<times> bytes) list" where
  "wheel_archive e l whl_name exe_name exe license pypi_metadata description whl_metadata =
     andthen
       (write_items e
          (wheel_items l whl_name exe_name exe license pypi_metadata description whl_metadata)
          [])
       (WheelFile_close e l (whl_name @ ''.dist-info'' @ ''/RECORD''))"

text \<open>The path of the archive for a staged executable, and the name of the executable in
  the archive.\<close>

definition whl_file_of :: "path \<Rightarrow> string \<Rightarrow> path \<Rightarrow> path" where
  "whl_file_of whl_dir whl_name exe_file =
     joinpath whl_dir (whl_name @ ''-'' @ path_name exe_file @ ''.whl'')"

definition exe_name_of :: "string \<Rightarrow> string" where
  "exe_name_of pypi_platform =
     (if startswith pypi_platform ''py2.py3-none-win'' then EXE_NAME @ ''.exe'' else EXE_NAME)"

text \<open>The loop over the staged executables of one tag directory. The state is the file
  system and the dictionary \<open>whl_metadata\<close>, whose \<open>Tag\<close> the loop assigns. Opening the archive
  creates the file; the executable is read after that; the file has the bytes of the
  archive when the archive is closed.\<close>

fun assemble_exes ::
  "env \<Rightarrow> lib \<Rightarrow> path \<Rightarrow> string \<Rightarrow> metadata \<Rightarrow> string \<Rightarrow> bytes \<Rightarrow> path list \<Rightarrow>
   fs \<times> metadata \<Rightarrow> error + fs \<times> metadata" where
  "assemble_exes e l whl_dir whl_name pypi_metadata description license [] st = Inr st"
| "assemble_exes e l whl_dir whl_name pypi_metadata description license (exe_file # rest)
     (fs, whl_metadata) =
     (if \<not> is_file fs exe_file
      then assemble_exes e l whl_dir whl_name pypi_metadata description license rest
             (fs, whl_metadata)
      else if exists_path fs (whl_file_of whl_dir whl_name exe_file)
      then assemble_exes e l whl_dir whl_name pypi_metadata description license rest
             (fs, whl_metadata)
      else
        andthen (write_bytes (whl_file_of whl_dir whl_name exe_file) [] fs)
          (\<lambda>fs1. andthen (read_bytes exe_file fs1)
          (\<lambda>exe. andthen
             (wheel_archive e l whl_name (exe_name_of (path_name exe_file)) exe license
                pypi_metadata description
                (AList.update ''Tag'' (Str (path_name exe_file)) whl_metadata))
          (\<lambda>entries. andthen
             (write_bytes (whl_file_of whl_dir whl_name exe_file) (ZipFile_bytes l entries) fs1)
          (\<lambda>fs2. assemble_exes e l whl_dir whl_name pypi_metadata description license rest
                    (fs2, AList.update ''Tag'' (Str (path_name exe_file)) whl_metadata))))))"

text \<open>The loop over the tag directories. The state is the file system and the two metadata
  dictionaries.\<close>

fun assemble_tags ::
  "env \<Rightarrow> lib \<Rightarrow> string \<Rightarrow> string \<Rightarrow> path list \<Rightarrow> fs \<times> metadata \<times> metadata \<Rightarrow>
   error + fs \<times> metadata \<times> metadata" where
  "assemble_tags e l version_sfx description [] st = Inr st"
| "assemble_tags e l version_sfx description (tag_dir # rest) (fs, pypi_metadata, whl_metadata) =
     (if \<not> is_dir fs tag_dir
      then assemble_tags e l version_sfx description rest (fs, pypi_metadata, whl_metadata)
      else
        andthen (tag_version (Version_canonical l) (path_name tag_dir) version_sfx)
          (\<lambda>version. andthen (mkdir True True (joinpath DIST_DIR version) fs)
          (\<lambda>fs1. andthen (read_bytes (joinpath tag_dir ''LICENSE'') fs1)
          (\<lambda>license. andthen
             (assemble_exes e l (joinpath DIST_DIR version) (WHL_NAME @ ''-'' @ version)
                (AList.update ''Download-URL''
                   (Str (UPSTREAM_URL @ ''/releases/tag/'' @ path_name tag_dir))
                   (AList.update ''Version'' (Str version) pypi_metadata))
                description license (glob_star fs1 tag_dir ''py2.py3-none-'' [])
                (fs1, whl_metadata))
          (\<lambda>(fs2, whl_metadata2).
             assemble_tags e l version_sfx description rest
               (fs2,
                AList.update ''Download-URL''
                  (Str (UPSTREAM_URL @ ''/releases/tag/'' @ path_name tag_dir))
                  (AList.update ''Version'' (Str version) pypi_metadata),
                whl_metadata2))))))"

definition PRJ_DESC_PATH :: path where
  "PRJ_DESC_PATH = ROOT_DIR @ [''README.md'']"

text \<open>\<open>assemble\<close>; the result is the file system it leaves. \<open>EXE_BUILD_DIR.glob(tag)\<close> is
  evaluated when the loop starts.\<close>

definition assemble :: "env \<Rightarrow> lib \<Rightarrow> bool \<Rightarrow> bool \<Rightarrow> string \<Rightarrow> fs \<Rightarrow> error + fs" where
  "assemble e l clean dev tag fs =
     andthen (maybe_clean clean DIST_DIR fs)
       (\<lambda>fs1. andthen (version_suffix e dev)
       (\<lambda>version_sfx. andthen (read_bytes PRJ_DESC_PATH fs1)
       (\<lambda>description. andthen (glob_pattern l fs1 EXE_BUILD_DIR tag)
       (\<lambda>tag_dirs. andthen
          (assemble_tags e l version_sfx description tag_dirs
             (fs1, PYPI_METADATA, WHL_METADATA))
       (\<lambda>(fs2, pypi_metadata, whl_metadata). Inr fs2)))))"

section \<open>Build stager\<close>

text \<open>The loop over the executables of one cached tag directory.\<close>

fun build_exes :: "path \<Rightarrow> path list \<Rightarrow> fs \<Rightarrow> error + fs" where
  "build_exes dst [] fs = Inr fs"
| "build_exes dst (exe_src # rest) fs =
     (if \<not> is_file fs exe_src then build_exes dst rest fs
      else
        (case map_platform (path_name exe_src) of
           None \<Rightarrow> build_exes dst rest fs
         | Some exe_platform \<Rightarrow>
             andthen (copyfile exe_src (joinpath dst (''py2.py3-none-'' @ exe_platform)) fs)
               (build_exes dst rest)))"

text \<open>The loop over the cached tag directories; \<open>FileExistsError\<close> of \<open>dst.mkdir\<close> is caught
  and skips the tag, any other exception ends the command.\<close>

fun build_tags :: "path list \<Rightarrow> fs \<Rightarrow> error + fs" where
  "build_tags [] fs = Inr fs"
| "build_tags (src # rest) fs =
     (if \<not> is_dir fs src then build_tags rest fs
      else
        (case mkdir True False (joinpath EXE_BUILD_DIR (path_name src)) fs of
           Inl FileExistsError \<Rightarrow> build_tags rest fs
         | Inl err \<Rightarrow> Inl err
         | Inr fs1 \<Rightarrow>
             andthen (copyfile (joinpath src ''LICENSE'')
                        (joinpath (joinpath EXE_BUILD_DIR (path_name src)) ''LICENSE'') fs1)
               (\<lambda>fs2. andthen
                  (build_exes (joinpath EXE_BUILD_DIR (path_name src))
                     (glob_star fs2 src EXE_NAME []) fs2)
                  (build_tags rest))))"

text \<open>\<open>build\<close>; \<open>EXE_CACHE_DIR.glob(tag_glob)\<close> is evaluated when the loop starts.\<close>

definition build :: "lib \<Rightarrow> bool \<Rightarrow> string \<Rightarrow> fs \<Rightarrow> error + fs" where
  "build l clean tag_glob fs =
     andthen (maybe_clean clean EXE_BUILD_DIR fs)
       (\<lambda>fs1. andthen (glob_pattern l fs1 EXE_CACHE_DIR tag_glob) (\<lambda>srcs. build_tags srcs fs1))"

section \<open>Asset cache and download\<close>

text \<open>What \<open>download\<close> reads of a response: the status code, the body as a release document
  (\<open>None\<close> when \<open>response.json()\<close> raises) and the raw content. Of a release document the tag
  name and the assets are read, of an asset its name and its download URL; a key of the
  document may be missing.\<close>

record release_json =
  json_tag_name :: "string option"
  json_assets :: "(string \<times> string) list option"

record Reply =
  reply_status :: nat
  reply_json :: "release_json option"
  reply_content :: bytes

text \<open>\<open>Response.raise_for_status\<close> raises for the status codes from 400 to 599.\<close>

definition raises_for_status :: "Reply \<Rightarrow> bool" where
  "raises_for_status r = (400 \<le> reply_status r \<and> reply_status r < 600)"

text \<open>\<open>gh_token\<close>.\<close>

definition gh_token :: "env \<Rightarrow> error + string" where
  "gh_token e =
     (case GITHUB_TOKEN e of
        Some it \<Rightarrow> Inr it
      | None \<Rightarrow> (case GH_TOKEN e of Some it \<Rightarrow> Inr it | None \<Rightarrow> Inl (SystemExit 1)))"

text \<open>The regular expression \<open>\Abuf-[^.]+(?:\.exe)?\Z\<close>: the prefix \<open>buf-\<close>, then one or
  more characters other than the dot, then optionally \<open>.exe\<close>, and nothing else.\<close>

definition asset_filter :: "string \<Rightarrow> bool" where
  "asset_filter s =
     (startswith s ''buf-'' \<and>
      (let rest = drop 4 s;
           stem = (if endswith rest ''.exe'' then take (length rest - 4) rest else rest)
       in stem \<noteq> [] \<and> CHR ''.'' \<notin> set stem))"

text \<open>The local function \<open>download_file\<close>.\<close>

definition download_file :: "(string \<Rightarrow> Reply) \<Rightarrow> path \<Rightarrow> string \<Rightarrow> world \<Rightarrow> error + world" where
  "download_file get dst url w =
     (if exists_path (files w) dst then Inr w
      else if raises_for_status (get url) then Inl HTTPError
      else
        andthen (write_bytes dst (reply_content (get url)) (files w))
          (\<lambda>fs. Inr \<lparr>files = fs, requests = requests w @ [url]\<rparr>))"

text \<open>The loop over the assets of the release.\<close>

fun download_assets ::
  "(string \<Rightarrow> Reply) \<Rightarrow> path \<Rightarrow> (string \<times> string) list \<Rightarrow> world \<Rightarrow> error + world" where
  "download_assets get exe_dir [] w = Inr w"
| "download_assets get exe_dir ((exe_name, url) # rest) w =
     (if asset_filter exe_name
      then andthen (download_file get (joinpath exe_dir exe_name) url w)
             (download_assets get exe_dir rest)
      else download_assets get exe_dir rest w)"

text \<open>\<open>download\<close>. The tag that names the directory is \<open>tags/\<close> followed by the argument,
  or the tag name of the release when the argument is \<open>latest\<close>.\<close>

definition download :: "(string \<Rightarrow> Reply) \<Rightarrow> env \<Rightarrow> string \<Rightarrow> bool \<Rightarrow> world \<Rightarrow> error + world" where
  "download get e tag clean w =
     andthen (maybe_clean clean EXE_CACHE_DIR (files w))
       (\<lambda>fs1. andthen (gh_token e)
       (\<lambda>token.
          if raises_for_status
               (get (''https://api.github.com/repos/'' @ UPSTREAM @ ''/releases/'' @
                     (if tag \<noteq> ''latest'' then ''tags/'' @ tag else tag)))
          then Inl HTTPError
          else
            (case reply_json
                    (get (''https://api.github.com/repos/'' @ UPSTREAM @ ''/releases/'' @
                          (if tag \<noteq> ''latest'' then ''tags/'' @ tag else tag))) of
               None \<Rightarrow> Inl JSONDecodeError
             | Some release \<Rightarrow>
                 andthen
                   (if tag = ''latest''
                    then (case json_tag_name release of
                            None \<Rightarrow> Inl KeyError | Some t \<Rightarrow> Inr t)
                    else Inr (''tags/'' @ tag))
                   (\<lambda>tag2. andthen
                      (mkdir True True (joinpath EXE_CACHE_DIR tag2) fs1)
                   (\<lambda>fs2. andthen
                      (download_file get
                         (joinpath (joinpath EXE_CACHE_DIR tag2) ''LICENSE'')
                         (''https://raw.githubusercontent.com/'' @ UPSTREAM @ ''/'' @ tag2 @
                          ''/LICENSE'')
                         \<lparr>files = fs2,
                          requests = requests w @
                            [''https://api.github.com/repos/'' @ UPSTREAM @ ''/releases/'' @
                             (if tag \<noteq> ''latest'' then ''tags/'' @ tag else tag)]\<rparr>)
                   (\<lambda>w2. (case json_assets release of
                             None \<Rightarrow> Inl KeyError
                           | Some assets \<Rightarrow>
                               download_assets get (joinpath EXE_CACHE_DIR tag2) assets w2)))))))"

section \<open>Reading an archive entry\<close>

text \<open>Reading \<open>external_attr\<close>: the Unix mode is its upper 16 bits; the permission bits are
  \<open>mode & 0o777\<close>; the entry is a regular file when \<open>mode & 0o170000\<close> is \<open>0o100000\<close>, that is
  when the bits 12 to 15 of the mode are 8.\<close>

definition unix_mode :: "ZipInfo \<Rightarrow> nat" where
  "unix_mode zi = drop_bit 16 (external_attr zi)"

definition permission_bits :: "ZipInfo \<Rightarrow> nat" where
  "permission_bits zi = take_bit 9 (unix_mode zi)"

definition is_regular :: "ZipInfo \<Rightarrow> bool" where
  "is_regular zi = (take_bit 4 (drop_bit 12 (unix_mode zi)) = 8)"

section \<open>How a command changes the file system\<close>

text \<open>\<open>grows area fs fs'\<close>: from \<open>fs\<close> to \<open>fs'\<close> every directory stays a directory and every
  file stays a file, nothing outside the top-level directory \<open>area\<close> changes, and the
  directory listings gain entries only below \<open>area\<close>, after the entries they had.\<close>

definition grows :: "string \<Rightarrow> fs \<Rightarrow> fs \<Rightarrow> bool" where
  "grows area fs fs' \<longleftrightarrow>
     (\<forall>q. is_dir fs q \<longrightarrow> is_dir fs' q) \<and>
     (\<forall>q. is_file fs q \<longrightarrow> is_file fs' q) \<and>
     (\<forall>q. q = [] \<or> hd q \<noteq> area \<longrightarrow> lookup fs' q = lookup fs q) \<and>
     (\<exists>new. map fst fs' = map fst fs @ new \<and> (\<forall>q \<in> set new. q \<noteq> [] \<and> hd q = area))"

section \<open>Example data for the pipeline\<close>

text \<open>A cache with the tag \<open>v1.2.3\<close>, holding the licence and the executable for Linux on
  x86_64, beside the description document of the project.\<close>

definition example_cache :: fs where
  "example_cache =
     [([''README.md''], File ''# buf''),
      ([''.cache''], Dir),
      ([''.cache'', ''buf''], Dir),
      ([''.cache'', ''buf'', ''v1.2.3''], Dir),
      ([''.cache'', ''buf'', ''v1.2.3'', ''LICENSE''], File ''Apache''),
      ([''.cache'', ''buf'', ''v1.2.3'', ''buf-Linux-x86_64''], File ''ELF'')]"

text \<open>The same after \<open>build\<close>.\<close>

definition example_staged :: fs where
  "example_staged = example_cache @
     [([''build''], Dir),
      ([''build'', ''buf''], Dir),
      ([''build'', ''buf'', ''v1.2.3''], Dir),
      ([''build'', ''buf'', ''v1.2.3'', ''LICENSE''], File ''Apache''),
      ([''build'', ''buf'', ''v1.2.3'',
        ''py2.py3-none-manylinux_2_5_x86_64.manylinux1_x86_64''], File ''ELF'')]"

text \<open>Stand-ins for the libraries. A pattern with a \<open>*\<close> is read as the text before its first
  \<open>*\<close>, the \<open>*\<close> and the text after it; any other pattern names one entry. Versions are taken
  as they are. A message is the list of its header names. The entry \<open>RECORD\<close> lists the names
  of the entries, and the library hands it to \<open>writestr\<close> as a \<open>ZipInfo\<close> made on the host and
  dated by its clock. An archive file is the list of the names of its entries.\<close>

definition example_glob :: "fs \<Rightarrow> path \<Rightarrow> string \<Rightarrow> error + path list" where
  "example_glob fs d pat =
     (if CHR ''*'' \<in> set pat
      then Inr (glob_star fs d (takeWhile (\<lambda>c. c \<noteq> CHR ''*'') pat)
                  (tl (dropWhile (\<lambda>c. c \<noteq> CHR ''*'') pat)))
      else Inr (filter (exists_path fs) [joinpath d pat]))"

definition example_lib :: lib where
  "example_lib =
     \<lparr>Path_glob = example_glob,
      Version_canonical = Some,
      EmailMessage_bytes = (\<lambda>headers payload. concat (map (\<lambda>(k, v). k @ '','') headers)),
      RECORD_data = (\<lambda>entries. concat (map (\<lambda>(zi, data). filename zi @ '','') entries)),
      RECORD_zinfo = (\<lambda>e. Some ((ZipInfo_init e [])
                                 \<lparr>date_time := (1980 + clock e div 31556952, 1, 1, 0, 0, 0),
                                  compress_type := ZIP_DEFLATED,
                                  external_attr := push_bit 16 436\<rparr>)),
      ZipFile_bytes = (\<lambda>entries. concat (map (\<lambda>(zi, data). filename zi @ '';'') entries))\<rparr>"

text \<open>The same libraries with a \<open>wheel\<close> that hands the name of \<open>RECORD\<close> to \<open>writestr\<close>.\<close>

definition example_lib_str :: lib where
  "example_lib_str = example_lib\<lparr>RECORD_zinfo := (\<lambda>e. None)\<rparr>"

text \<open>Two hosts: Linux and Windows, with different clocks.\<close>

definition example_linux :: env where
  "example_linux =
     \<lparr>win32 = False, clock = 1700000000, SOURCE_DATE_EPOCH = None,
      GITHUB_TOKEN = Some ''token'', GH_TOKEN = None, git_commit_time = Some 1700000000\<rparr>"

definition example_windows :: env where
  "example_windows =
     \<lparr>win32 = True, clock = 1800000000, SOURCE_DATE_EPOCH = Some 1600000000,
      GITHUB_TOKEN = None, GH_TOKEN = Some ''token'', git_commit_time = Some 1700000000\<rparr>"

text \<open>A host whose latest commit is dated in the year 10000.\<close>

definition example_late :: env where
  "example_late = example_linux\<lparr>git_commit_time := Some 253402300800\<rparr>"

text \<open>The staged files after \<open>assemble\<close>, without and with development mode.\<close>

definition example_assembled :: fs where
  "example_assembled = example_staged @
     [([''dist''], Dir),
      ([''dist'', ''1.2.3''], Dir),
      ([''dist'', ''1.2.3'',
        ''buf_exe-1.2.3-py2.py3-none-manylinux_2_5_x86_64.manylinux1_x86_64.whl''],
       File (''buf_exe-1.2.3.data/scripts/buf;buf_exe-1.2.3.dist-info/LICENSE;'' @
             ''buf_exe-1.2.3.dist-info/METADATA;buf_exe-1.2.3.dist-info/WHEEL;'' @
             ''buf_exe-1.2.3.dist-info/RECORD;''))]"

definition example_assembled_dev :: fs where
  "example_assembled_dev = example_staged @
     [([''dist''], Dir),
      ([''dist'', ''1.2.3.dev20231114221320''], Dir),
      ([''dist'', ''1.2.3.dev20231114221320'',
        ''buf_exe-1.2.3.dev20231114221320-py2.py3-none-manylinux_2_5_x86_64.manylinux1_x86_64.whl''],
       File (''buf_exe-1.2.3.dev20231114221320.data/scripts/buf;'' @
             ''buf_exe-1.2.3.dev20231114221320.dist-info/LICENSE;'' @
             ''buf_exe-1.2.3.dev20231114221320.dist-info/METADATA;'' @
             ''buf_exe-1.2.3.dev20231114221320.dist-info/WHEEL;'' @
             ''buf_exe-1.2.3.dev20231114221320.dist-info/RECORD;''))]"




section \<open>Archives among the files\<close>

text \<open>\<open>archive_of e l sfx tag_dirs p data\<close>: the file \<open>p\<close> with the bytes \<open>data\<close> is an archive
  as \<open>assemble\<close> writes it for a staged executable of one of the tag directories: the version
  comes from the name of the tag directory and the suffix, it names the directory and the
  file of the archive and is the \<open>Version\<close> of its metadata, and the bytes are those of the
  closed archive.\<close>

definition archive_of :: "env \<Rightarrow> lib \<Rightarrow> string \<Rightarrow> path list \<Rightarrow> path \<Rightarrow> bytes \<Rightarrow> bool" where
  "archive_of e l sfx tag_dirs p data \<longleftrightarrow>
     (\<exists>tag_dir version exe_file exe license pypi_metadata description whl_metadata entries.
        tag_dir \<in> set tag_dirs \<and>
        tag_version (Version_canonical l) (path_name tag_dir) sfx = Inr version \<and>
        p = whl_file_of (joinpath DIST_DIR version) (WHL_NAME @ ''-'' @ version) exe_file \<and>
        map_of pypi_metadata ''Version'' = Some (Str version) \<and>
        map_of whl_metadata ''Tag'' = Some (Str (path_name exe_file)) \<and>
        wheel_archive e l (WHL_NAME @ ''-'' @ version) (exe_name_of (path_name exe_file))
          exe license pypi_metadata description whl_metadata = Inr entries \<and>
        data = ZipFile_bytes l entries)"

text \<open>\<open>only_archives e l sfx tag_dirs fs fs'\<close>: every file of \<open>fs'\<close> is a file of \<open>fs\<close> with the
  same content, or such an archive.\<close>

definition only_archives :: "env \<Rightarrow> lib \<Rightarrow> string \<Rightarrow> path list \<Rightarrow> fs \<Rightarrow> fs \<Rightarrow> bool" where
  "only_archives e l sfx tag_dirs fs fs' \<longleftrightarrow>
     (\<forall>p data. lookup fs' p = Some (File data) \<longrightarrow>
        lookup fs p = Some (File data) \<or> archive_of e l sfx tag_dirs p data)"

section \<open>Properties\<close>

lemmas str_defs = removesuffix_def removeprefix_def startswith_def endswith_def

subsection \<open>Platform mapper\<close>

text \<open>
  Claim C3. \<open>map_platform\<close> is a total function into an optional tag: when the name without
  the \<open>buf-\<close> prefix and the \<open>.exe\<close> suffix is one of the six keys of the table, the result
  is the tag of that key; for every other input the result is \<open>None\<close>. The model has no
  error branch because neither \<open>removeprefix\<close>, \<open>removesuffix\<close> nor \<open>dict.get\<close> raises.
\<close>

theorem map_platform_total:
  fixes s :: string
  defines "k \<equiv> removesuffix (removeprefix s ''buf-'') ''.exe''"
  shows "(k = ''Linux-aarch64'' \<longrightarrow>
            map_platform s = Some ''manylinux_2_17_aarch64.manylinux2014_aarch64'') \<and>
         (k = ''Linux-x86_64'' \<longrightarrow>
            map_platform s = Some ''manylinux_2_5_x86_64.manylinux1_x86_64'') \<and>
         (k = ''Darwin-arm64'' \<longrightarrow> map_platform s = Some ''macosx_11_0_arm64'') \<and>
         (k = ''Darwin-x86_64'' \<longrightarrow> map_platform s = Some ''macosx_10_4_x86_64'') \<and>
         (k = ''Windows-arm64'' \<longrightarrow> map_platform s = Some ''win_arm64'') \<and>
         (k = ''Windows-x86_64'' \<longrightarrow> map_platform s = Some ''win_amd64'') \<and>
         (k \<notin> {''Linux-aarch64'', ''Linux-x86_64'', ''Darwin-arm64'', ''Darwin-x86_64'',
                ''Windows-arm64'', ''Windows-x86_64''} \<longrightarrow> map_platform s = None)"
  unfolding k_def map_platform_def PLATFORM_TABLE_def EXE_NAME_def by simp

theorem map_platform_total_witness:
  "map_platform ''buf-Linux-x86_64'' = Some ''manylinux_2_5_x86_64.manylinux1_x86_64'' \<and>
   map_platform ''buf-Windows-arm64.exe'' = Some ''win_arm64'' \<and>
   map_platform ''buf-FreeBSD-x86_64'' = None"
  using map_platform_total [of "''buf-Linux-x86_64''"]
        map_platform_total [of "''buf-Windows-arm64.exe''"]
        map_platform_total [of "''buf-FreeBSD-x86_64''"]
  by (simp add: str_defs)

lemma four_spellings:
  assumes "map_platform k = Some t"
    and "removeprefix k ''buf-'' = k" and "removesuffix k ''.exe'' = k"
    and "removeprefix (k @ ''.exe'') ''buf-'' = k @ ''.exe''"
  shows "map_platform (''buf-'' @ k) = Some t \<and>
         map_platform (k @ ''.exe'') = Some t \<and>
         map_platform (''buf-'' @ k @ ''.exe'') = Some t"
proof -
  have b: "removeprefix (''buf-'' @ k') ''buf-'' = k'" for k'
    by (simp add: removeprefix_def startswith_def)
  have d: "removesuffix (k @ ''.exe'') ''.exe'' = k"
    by (simp add: removesuffix_def endswith_def)
  from assms(1) have m: "map_of PLATFORM_TABLE k = Some t"
    by (simp add: map_platform_def EXE_NAME_def assms(2,3))
  have p: "EXE_NAME @ ''-'' = ''buf-''"
    by (simp add: EXE_NAME_def)
  show ?thesis
    unfolding map_platform_def p
    by (simp only: b d assms(3,4) m simp_thms)
qed

text \<open>
  Claim C10. The prefix \<open>buf-\<close> and the suffix \<open>.exe\<close> are stripped whenever they are
  present, whatever the operating system of the key: for every entry \<open>(k, t)\<close> of the table
  the four spellings \<open>k\<close>, \<open>buf-k\<close>, \<open>k.exe\<close> and \<open>buf-k.exe\<close> all map to \<open>t\<close>. The
  witness is the non-Windows name \<open>buf-Darwin-arm64.exe\<close>.
\<close>

theorem map_platform_strips_unconditionally:
  assumes "(k, t) \<in> set PLATFORM_TABLE"
  shows "map_platform k = Some t \<and>
         map_platform (''buf-'' @ k) = Some t \<and>
         map_platform (k @ ''.exe'') = Some t \<and>
         map_platform (''buf-'' @ k @ ''.exe'') = Some t"
proof -
  from assms have "(k, t) = (''Linux-aarch64'', ''manylinux_2_17_aarch64.manylinux2014_aarch64'')
      \<or> (k, t) = (''Linux-x86_64'', ''manylinux_2_5_x86_64.manylinux1_x86_64'')
      \<or> (k, t) = (''Darwin-arm64'', ''macosx_11_0_arm64'')
      \<or> (k, t) = (''Darwin-x86_64'', ''macosx_10_4_x86_64'')
      \<or> (k, t) = (''Windows-arm64'', ''win_arm64'')
      \<or> (k, t) = (''Windows-x86_64'', ''win_amd64'')"
    unfolding PLATFORM_TABLE_def by simp
  then have "map_platform k = Some t \<and> removeprefix k ''buf-'' = k \<and>
      removesuffix k ''.exe'' = k \<and> removeprefix (k @ ''.exe'') ''buf-'' = k @ ''.exe''"
    by (elim disjE)
       (simp_all add: map_platform_def PLATFORM_TABLE_def EXE_NAME_def str_defs)
  then show ?thesis using four_spellings [of k t] by blast
qed

theorem map_platform_strips_unconditionally_witness:
  "(''Darwin-arm64'', ''macosx_11_0_arm64'') \<in> set PLATFORM_TABLE \<and>
   map_platform ''Darwin-arm64'' = Some ''macosx_11_0_arm64'' \<and>
   map_platform ''buf-Darwin-arm64'' = Some ''macosx_11_0_arm64'' \<and>
   map_platform ''Darwin-arm64.exe'' = Some ''macosx_11_0_arm64'' \<and>
   map_platform ''buf-Darwin-arm64.exe'' = Some ''macosx_11_0_arm64''"
proof -
  have h: "(''Darwin-arm64'', ''macosx_11_0_arm64'') \<in> set PLATFORM_TABLE"
    by (simp add: PLATFORM_TABLE_def)
  from map_platform_strips_unconditionally [OF h] h show ?thesis by simp
qed

subsection \<open>Releases\<close>








subsection \<open>Release fetcher\<close>




text \<open>
  Claim C9. \<open>Asset.download\<close> does nothing: for every asset and every state it returns
  \<open>None\<close> and leaves the state as it was, the files and the log of requested URLs included.
\<close>

theorem Asset_download_noop:
  "Asset_download a w = ((), w) \<and>
   files (snd (Asset_download a w)) = files w \<and>
   requests (snd (Asset_download a w)) = requests w"
  by (simp add: Asset_download_def)

subsection \<open>Time\<close>

lemma digit_in: "n < 10 \<Longrightarrow> digit n \<in> set ''0123456789''"
  unfolding digit_def by (rule nth_mem) simp

lemma str_nat_digits: "set (str_nat n) \<subseteq> set ''0123456789''"
proof (induction n rule: str_nat.induct)
  case (1 n)
  show ?case
  proof (cases "n < 10")
    case True
    then show ?thesis using digit_in [of n] by (subst str_nat.simps) simp
  next
    case False
    then have "set (str_nat (n div 10)) \<subseteq> set ''0123456789''" using 1 by simp
    moreover have "digit (n mod 10) \<in> set ''0123456789''" by (rule digit_in) simp
    ultimately show ?thesis using False by (subst str_nat.simps) simp
  qed
qed

lemma str_nat_len1: "n < 10 \<Longrightarrow> length (str_nat n) = 1"
  by (subst str_nat.simps) simp

lemma str_nat_step: "10 \<le> n \<Longrightarrow> length (str_nat n) = Suc (length (str_nat (n div 10)))"
  by (subst str_nat.simps) simp

lemma str_nat_len2: "10 \<le> n \<Longrightarrow> n < 100 \<Longrightarrow> length (str_nat n) = 2"
proof -
  assume a: "10 \<le> n" "n < 100"
  then have "n div 10 < 10" by simp
  with a show ?thesis using str_nat_step [of n] str_nat_len1 [of "n div 10"] by simp
qed

lemma str_nat_len3: "100 \<le> n \<Longrightarrow> n < 1000 \<Longrightarrow> length (str_nat n) = 3"
proof -
  assume a: "100 \<le> n" "n < 1000"
  then have "10 \<le> n div 10" "n div 10 < 100" by simp_all
  with a show ?thesis using str_nat_step [of n] str_nat_len2 [of "n div 10"] by simp
qed

lemma str_nat_len4: "1000 \<le> n \<Longrightarrow> n < 10000 \<Longrightarrow> length (str_nat n) = 4"
proof -
  assume a: "1000 \<le> n" "n < 10000"
  then have "100 \<le> n div 10" "n div 10 < 1000" by simp_all
  with a show ?thesis using str_nat_step [of n] str_nat_len3 [of "n div 10"] by simp
qed

lemma str_int_year:
  assumes "1000 \<le> y" and "y < 10000"
  shows "length (str_int y) = 4 \<and> set (str_int y) \<subseteq> set ''0123456789''"
proof -
  from assms have "1000 \<le> nat y" "nat y < 10000" by simp_all
  then have "length (str_nat (nat y)) = 4" by (rule str_nat_len4)
  with assms str_nat_digits [of "nat y"] show ?thesis by (simp add: str_int_def)
qed

lemma zfill2_len: "n < 100 \<Longrightarrow> length (zfill2 n) = 2"
  by (cases "n < 10") (simp_all add: zfill2_def str_nat_len1 str_nat_len2)

lemma zfill2_digits: "set (zfill2 n) \<subseteq> set ''0123456789''"
  using str_nat_digits [of n] by (auto simp: zfill2_def)

lemma div_step:
  fixes n k :: int
  assumes "0 < k"
  shows "n div k - (n - 1) div k = (if n mod k = 0 then 1 else 0)"
proof (cases "n mod k = 0")
  case True
  then have "n - 1 = k * (n div k - 1) + (k - 1)"
    using mult_div_mod_eq [of k n] by (simp add: algebra_simps)
  then have "(n - 1) div k = n div k - 1"
    using assms int_div_pos_eq [of "n - 1" k "n div k - 1" "k - 1"] by simp
  with True show ?thesis by simp
next
  case False
  have "0 \<le> n mod k" using assms by simp
  with False have pos: "0 \<le> n mod k - 1" by simp
  have lt: "n mod k - 1 < k" using pos_mod_bound [OF assms, of n] by simp
  have "n - 1 = k * (n div k) + (n mod k - 1)"
    using mult_div_mod_eq [of k n] by (simp add: algebra_simps)
  then have "(n - 1) div k = n div k"
    using pos lt int_div_pos_eq [of "n - 1" k "n div k" "n mod k - 1"] by simp
  with False show ?thesis by simp
qed

lemma days_before_Suc: "days_before (y + 1) = days_before y + days_in_year y"
proof -
  define a b c :: int where "a = (if y mod 4 = 0 then 1 else 0)"
    and "b = (if y mod 100 = 0 then 1 else 0)" and "c = (if y mod 400 = 0 then 1 else 0)"
  have d4: "y div 4 = (y - 1) div 4 + a"
    using div_step [of 4 y] unfolding a_def by simp
  have d100: "y div 100 = (y - 1) div 100 + b"
    using div_step [of 100 y] unfolding b_def by simp
  have d400: "y div 400 = (y - 1) div 400 + c"
    using div_step [of 400 y] unfolding c_def by simp
  have s: "days_before (y + 1) = days_before y + 365 + (a - b + c)"
    unfolding days_before_def by (simp add: d4 d100 d400)
  have "y mod 400 mod 100 = y mod 100" "y mod 100 mod 4 = y mod 4"
    by (simp_all add: mod_mod_cancel)
  then have imp: "y mod 400 = 0 \<Longrightarrow> y mod 100 = 0" "y mod 100 = 0 \<Longrightarrow> y mod 4 = 0"
    by auto
  have l: "days_in_year y = 365 + (a - b + c)"
  proof (cases "y mod 4 = 0")
    case False
    with imp show ?thesis by (auto simp: days_in_year_def is_leap_def a_def b_def c_def)
  next
    case y4: True
    show ?thesis
    proof (cases "y mod 100 = 0")
      case False
      with y4 imp show ?thesis by (auto simp: days_in_year_def is_leap_def a_def b_def c_def)
    next
      case True
      with y4 show ?thesis by (simp add: days_in_year_def is_leap_def a_def b_def c_def)
    qed
  qed
  show ?thesis unfolding s l by simp
qed

lemma days_before_mono_nat: "days_before y \<le> days_before (y + int n)"
proof (induction n)
  case 0
  show ?case by simp
next
  case (Suc n)
  have "days_before (y + int (Suc n)) = days_before (y + int n) + days_in_year (y + int n)"
    using days_before_Suc [of "y + int n"] by (simp add: algebra_simps)
  with Suc show ?case by (simp add: days_in_year_def)
qed

lemma days_before_mono: "y \<le> y' \<Longrightarrow> days_before y \<le> days_before y'"
  using days_before_mono_nat [of y "nat (y' - y)"] by simp

lemma year_of_days_inv:
  "year_of_days y d = (y', r) \<Longrightarrow>
   days_before y' + r = days_before y + d \<and> 0 \<le> r \<and> r < days_in_year y'"
proof (induction y d rule: year_of_days.induct)
  case (1 y days)
  show ?case
  proof (cases "days < 0")
    case True
    with 1 show ?thesis
      using days_before_Suc [of "y - 1"] by (subst (asm) (2) year_of_days.simps) auto
  next
    case nonneg: False
    show ?thesis
    proof (cases "days_in_year y \<le> days")
      case True
      with nonneg 1 show ?thesis
        using days_before_Suc [of y] by (subst (asm) (2) year_of_days.simps) auto
    next
      case False
      with nonneg 1 show ?thesis by (subst (asm) year_of_days.simps) auto
    qed
  qed
qed

lemma year_bounds:
  assumes "year_of_days y d = (y', r)"
  shows "days_before y' \<le> days_before y + d \<and> days_before y + d < days_before (y' + 1)"
  using year_of_days_inv [OF assms] days_before_Suc [of y'] by simp

lemma year_of_days_eq:
  assumes "days_before Y \<le> days_before y + d" and "days_before y + d < days_before (Y + 1)"
  shows "year_of_days y d = (Y, days_before y + d - days_before Y)"
proof -
  obtain y' r where yr: "year_of_days y d = (y', r)" by (cases "year_of_days y d")
  note b = year_bounds [OF yr]
  have "\<not> y' < Y"
  proof
    assume "y' < Y"
    then have "days_before (y' + 1) \<le> days_before Y" by (intro days_before_mono) simp
    with b assms show False by simp
  qed
  moreover have "\<not> Y < y'"
  proof
    assume "Y < y'"
    then have "days_before (Y + 1) \<le> days_before y'" by (intro days_before_mono) simp
    with b assms show False by simp
  qed
  ultimately have "y' = Y" by simp
  with year_of_days_inv [OF yr] yr show ?thesis by simp
qed

lemma gmtime_1700000000:
  "gmtime 1700000000 =
     \<lparr>tm_year = 2023, tm_mon = 11, tm_mday = 14, tm_hour = 22, tm_min = 13, tm_sec = 20\<rparr>"
proof -
  have "year_of_days 1970 (1700000000 div 86400) = (2023, 317)"
    using year_of_days_eq [of 2023 1970 "1700000000 div 86400"]
    by (simp add: days_before_def)
  then show ?thesis
    unfolding gmtime_def by (simp add: month_lengths_def is_leap_def)
qed

lemma gmtime_253402300800:
  "gmtime 253402300800 =
     \<lparr>tm_year = 10000, tm_mon = 1, tm_mday = 1, tm_hour = 0, tm_min = 0, tm_sec = 0\<rparr>"
proof -
  have "year_of_days 1970 (253402300800 div 86400) = (10000, 0)"
    using year_of_days_eq [of 10000 1970 "253402300800 div 86400"]
    by (simp add: days_before_def)
  then show ?thesis
    unfolding gmtime_def by (simp add: month_lengths_def is_leap_def)
qed

lemma gmtime_minus_1:
  "gmtime (- 1) =
     \<lparr>tm_year = 1969, tm_mon = 12, tm_mday = 31, tm_hour = 23, tm_min = 59, tm_sec = 59\<rparr>"
proof -
  have "year_of_days 1970 (- 1 div 86400) = (1969, 364)"
    using year_of_days_eq [of 1969 1970 "- 1 div 86400"]
    by (simp add: days_before_def)
  then show ?thesis
    unfolding gmtime_def by (simp add: month_lengths_def is_leap_def)
qed

lemma strftime_examples:
  "strftime_YmdHMS (gmtime 1700000000) = ''20231114221320''"
  "strftime_YmdHMS (gmtime 253402300800) = ''100000101000000''"
  "strftime_YmdHMS (gmtime (- 1)) = ''19691231235959''"
  unfolding gmtime_1700000000 gmtime_253402300800 gmtime_minus_1
  by (simp_all add: strftime_YmdHMS_def zfill2_def digit_def str_nat.simps str_int_def)

lemma month_of_days_range:
  "month_of_days m d ls = (m', d') \<Longrightarrow> d < sum_list ls \<Longrightarrow> \<forall>l \<in> set ls. l \<le> 31 \<Longrightarrow>
   m \<le> m' \<and> m' < m + length ls \<and> d' < 31"
proof (induction ls arbitrary: m d)
  case Nil
  then show ?case by simp
next
  case (Cons l ls)
  show ?case
  proof (cases "l \<le> d")
    case True
    with Cons.prems have "month_of_days (m + 1) (d - l) ls = (m', d')" "d - l < sum_list ls"
      "\<forall>l \<in> set ls. l \<le> 31" by auto
    from Cons.IH [OF this] show ?thesis by simp
  next
    case False
    with Cons.prems show ?thesis by auto
  qed
qed

lemma sum_month_lengths: "int (sum_list (month_lengths y)) = days_in_year y"
  by (simp add: month_lengths_def days_in_year_def)

lemma year_range:
  assumes yr: "year_of_days 1970 D = (y, r)" and lo: "- 354285 \<le> D" and hi: "D < 2932897"
  shows "1000 \<le> y \<and> y < 10000 \<and> 0 \<le> r \<and> r < days_in_year y"
proof -
  note b = year_bounds [OF yr] and i = year_of_days_inv [OF yr]
  have c: "days_before 1970 = 0" "days_before 10000 = 2932897" "days_before 1000 = - 354285"
    by (simp_all add: days_before_def)
  have y1: "1000 \<le> y"
  proof (rule ccontr)
    assume "\<not> 1000 \<le> y"
    then have "y + 1 \<le> 1000" by simp
    then have "days_before (y + 1) \<le> days_before 1000" by (rule days_before_mono)
    with b c lo show False by simp
  qed
  have y2: "y < 10000"
  proof (rule ccontr)
    assume "\<not> y < 10000"
    then have "10000 \<le> y" by simp
    then have "days_before 10000 \<le> days_before y" by (rule days_before_mono)
    with b c hi show False by simp
  qed
  from y1 y2 i show ?thesis by simp
qed

lemma month_range:
  assumes md: "month_of_days 1 (nat r) (month_lengths y) = (m, d)"
    and r: "0 \<le> r" "r < days_in_year y"
  shows "1 \<le> m \<and> m \<le> 12 \<and> d < 31"
proof -
  have all31: "\<forall>l \<in> set (month_lengths y). l \<le> 31" by (simp add: month_lengths_def)
  have len: "length (month_lengths y) = 12" by (simp add: month_lengths_def)
  from r have "r < int (sum_list (month_lengths y))"
    by (simp only: sum_month_lengths)
  with r(1) have "nat r < sum_list (month_lengths y)" by simp
  from month_of_days_range [OF md this all31]
  show ?thesis unfolding len by simp
qed

lemma nat_less_of_bounds: "0 \<le> x \<Longrightarrow> x \<le> int k \<Longrightarrow> nat x < Suc k"
  by simp

lemma div_bounds:
  fixes x :: int
  assumes "0 \<le> x" and "x \<le> b" and "0 < k"
  shows "0 \<le> x div k" and "x div k \<le> b div k"
  using assms by (simp_all add: pos_imp_zdiv_nonneg_iff zdiv_mono1)

lemma clock_range:
  fixes t :: int
  shows "nat (t mod 86400 div 3600) < 24 \<and> nat (t mod 3600 div 60) < 60 \<and> nat (t mod 60) < 60"
proof -
  define a b c where "a = t mod 86400" and "b = t mod 3600" and "c = t mod 60"
  have a: "0 \<le> a" "a \<le> 86399"
    unfolding a_def using pos_mod_bound [of 86400 t] pos_mod_sign [of 86400 t] by linarith+
  have b: "0 \<le> b" "b \<le> 3599"
    unfolding b_def using pos_mod_bound [of 3600 t] pos_mod_sign [of 3600 t] by linarith+
  have c: "0 \<le> c" "c \<le> 59"
    unfolding c_def using pos_mod_bound [of 60 t] pos_mod_sign [of 60 t] by linarith+
  define h m where "h = a div 3600" and "m = b div 60"
  have h: "0 \<le> h" "h \<le> 23"
    unfolding h_def using div_bounds [OF a, of 3600] by simp_all
  have m: "0 \<le> m" "m \<le> 59"
    unfolding m_def using div_bounds [OF b, of 60] by simp_all
  have "nat h < 24" "nat m < 60" "nat c < 60"
    using h m c by simp_all
  then show ?thesis unfolding h_def m_def a_def b_def c_def by blast
qed

lemma gmtime_range:
  assumes "- 30610224000 \<le> t" and "t < 253402300800"
  shows "1000 \<le> tm_year (gmtime t) \<and> tm_year (gmtime t) < 10000 \<and>
         1 \<le> tm_mon (gmtime t) \<and> tm_mon (gmtime t) \<le> 12 \<and>
         1 \<le> tm_mday (gmtime t) \<and> tm_mday (gmtime t) \<le> 31 \<and>
         tm_hour (gmtime t) < 24 \<and> tm_min (gmtime t) < 60 \<and> tm_sec (gmtime t) < 60"
proof -
  obtain y r where yr: "year_of_days 1970 (t div 86400) = (y, r)"
    by (cases "year_of_days 1970 (t div 86400)")
  obtain m d where md: "month_of_days 1 (nat r) (month_lengths y) = (m, d)"
    by (cases "month_of_days 1 (nat r) (month_lengths y)")
  from assms(1) have lo: "- 354285 \<le> t div 86400"
    by (simp add: pos_imp_zdiv_neg_iff zdiv_mono1 [of "- 30610224000" t 86400, simplified])
  from assms(2) have hi: "t div 86400 < 2932897"
    using zdiv_mono1 [of t 253402300799 86400] by simp
  note y = year_range [OF yr lo hi]
  from y have r: "0 \<le> r" "r < days_in_year y" by simp_all
  note m = month_range [OF md r]
  have g: "gmtime t = \<lparr>tm_year = y, tm_mon = m, tm_mday = d + 1,
      tm_hour = nat (t mod 86400 div 3600), tm_min = nat (t mod 3600 div 60),
      tm_sec = nat (t mod 60)\<rparr>"
    by (simp only: gmtime_def yr md prod.case)
  from y m clock_range [of t] show ?thesis unfolding g by simp
qed

lemma strftime_14_digits:
  assumes "- 30610224000 \<le> t" and "t < 253402300800"
  shows "length (strftime_YmdHMS (gmtime t)) = 14 \<and>
         set (strftime_YmdHMS (gmtime t)) \<subseteq> set ''0123456789''"
proof -
  note r = gmtime_range [OF assms]
  from r str_int_year [of "tm_year (gmtime t)"] have
    y: "length (str_int (tm_year (gmtime t))) = 4"
       "set (str_int (tm_year (gmtime t))) \<subseteq> set ''0123456789''" by simp_all
  from r have
    "length (zfill2 (tm_mon (gmtime t))) = 2"
    "length (zfill2 (tm_mday (gmtime t))) = 2" "length (zfill2 (tm_hour (gmtime t))) = 2"
    "length (zfill2 (tm_min (gmtime t))) = 2" "length (zfill2 (tm_sec (gmtime t))) = 2"
    by (simp_all add: zfill2_len)
  with y have "length (strftime_YmdHMS (gmtime t)) = 14" by (simp add: strftime_YmdHMS_def)
  moreover have "set (strftime_YmdHMS (gmtime t)) \<subseteq> set ''0123456789''"
    unfolding strftime_YmdHMS_def set_append
    using y(2) zfill2_digits by (intro Un_least) blast+
  ultimately show ?thesis by simp
qed

subsection \<open>Verifier\<close>







end
